theory Spec2Isabelle
  imports Complex_Main "HOL-Library.AList"
begin

section \<open>Data model\<close>

text \<open>
  The bot of \<^verbatim>\<open>src/bot-15min.ts\<close> (class \<^verbatim>\<open>PolymarketBot15Min\<close>), its older
  variant with the fifth-loss circuit breaker, and the status wrapper
  \<^verbatim>\<open>bot-15min-instance\<close>.

  JavaScript numbers that carry money, prices and candle values are modelled as exact
  rationals. The operations that matter below are comparisons, doubling and
  multiplication by sixteen, which binary floating point performs without rounding as
  long as no overflow occurs. The thresholds 0.99 and 0.01 are the exact decimals, where
  the code has the nearest floating-point numbers. A number that can be \<^verbatim>\<open>NaN\<close> (the
  time of an unparseable date) is an \<open>option\<close>, with \<open>None\<close> for \<^verbatim>\<open>NaN\<close>.

  Ticks are modelled as running to completion one after another: a tick is a function
  from the state before it to the state after it. The answers of the network
  collaborators during one tick are collected in a record \<open>world\<close>; every call that
  can throw has an answer \<open>Throws\<close>.
\<close>

datatype side = UP | DOWN

datatype 'a answer = Throws | Returns 'a

text \<open>\<^verbatim>\<open>PolymarketMarket\<close> of \<^verbatim>\<open>types/polymarket.ts\<close>: the optional fields the bot reads.\<close>

datatype market = Market
  (conditionId: "string option")
  (endDate: "string option")
  (end_date_iso: "string option")
  (clobTokenIds: "string option")
  (outcomePrices: "string option")
  (markets: "market list")

text \<open>\<^verbatim>\<open>TicketPrices\<close>, without the field \<^verbatim>\<open>candidate\<close>, which this bot never reads.\<close>

record ticketPrices =
  up :: rat
  down :: rat
  upTokenId :: string
  downTokenId :: string

record candle =
  open_price :: rat
  close_price :: rat

text \<open>An entry of \<^verbatim>\<open>trackedMarkets\<close>: \<^verbatim>\<open>{ conditionId, side }\<close>.\<close>

record trackedInfo =
  info_conditionId :: string
  info_side :: side

text \<open>An open order as \<^verbatim>\<open>getOpenOrders\<close> reports it: only \<^verbatim>\<open>order.market\<close> is read.\<close>

record openOrder =
  order_market :: string

record clobMarket =
  minimum_tick_size :: rat
  neg_risk :: bool

text \<open>The arguments of \<^verbatim>\<open>createAndPostOrder\<close> (the side is always \<^verbatim>\<open>Side.BUY\<close>).\<close>

record orderArgs =
  tokenID :: string
  price :: rat
  size :: rat
  tickSize :: rat
  negRisk :: bool

record orderResponse =
  orderID :: "string option"
  status :: string

text \<open>
  The requests a tick sends out, in order. They are not a field of the class: they are
  what the collaborators see, kept so that what a tick submits can be stated.
  \<open>QuoteLookup m\<close> is a call \<^verbatim>\<open>getTicketPrices(m)\<close>; \<open>PostOrder c a\<close> is a call
  \<^verbatim>\<open>createAndPostOrder(a, ...)\<close> made by \<^verbatim>\<open>placeOrder(c, ...)\<close>.
\<close>

datatype request = QuoteLookup market | PostOrder "string option" orderArgs

text \<open>
  The fields of the class that the tick reads or writes. \<open>client\<close> is true once
  \<^verbatim>\<open>this.client\<close> is set. \<^verbatim>\<open>trackedMarkets\<close> is a JavaScript \<^verbatim>\<open>Map\<close>, which
  iterates in insertion order: an association list, updated with \<open>AList.update\<close>
  (\<^verbatim>\<open>set\<close>) and \<open>AList.delete\<close> (\<^verbatim>\<open>delete\<close>).
\<close>

record bot =
  initialAmount :: rat
  currentBetAmount :: rat
  investmentAmount :: rat
  client :: bool
  orderLock :: bool
  processedMarkets :: "string set"
  trackedMarkets :: "(string \<times> trackedInfo) list"
  tradingSide :: side
  waitingFor5Consecutive :: bool
  consecutiveCandlesCount :: int
  sent :: "request list"

text \<open>
  The collaborators' answers during one tick, one field per call site.
  In the loop over the tracked markets the answers may differ from one iteration to the
  next, so they are indexed by the key of the iteration.
  \<^item> \<open>findMarketsA k\<close>, \<open>nowA k\<close>, \<open>getPriceA k\<close>: \<^verbatim>\<open>findBTC15MinMarkets()\<close>,
    \<^verbatim>\<open>Date.now()\<close> (milliseconds) and \<^verbatim>\<open>client.getPrice(token, "BUY")\<close>, read as
    \<^verbatim>\<open>Number(res?.price || 0)\<close>, in the iteration for key \<open>k\<close>;
  \<^item> \<open>findMarketsL k\<close>: the same call in the older variant, where it returns an array;
  \<^item> \<open>getTime str\<close>: \<^verbatim>\<open>new Date(str).getTime()\<close>, \<open>None\<close> for \<^verbatim>\<open>NaN\<close>;
  \<^item> \<open>candles\<close>: \<^verbatim>\<open>getLastNCandles\<close>, \<open>None\<close> for \<^verbatim>\<open>null\<close>;
  \<^item> \<open>findMarketsC\<close>, \<open>getPriceC\<close>: the market and price lookups of the betting step;
  \<^item> \<open>parseTokenIds str\<close>: \<^verbatim>\<open>JSON.parse(str)\<close> of a market's \<^verbatim>\<open>clobTokenIds\<close>, an array
    of strings when it does not throw;
  \<^item> \<open>parsePrices str\<close>: \<^verbatim>\<open>JSON.parse(str)\<close> of a market's \<^verbatim>\<open>outcomePrices\<close>, its
    entries read as numbers;
  \<^item> \<open>openOrders1\<close>, \<open>openOrders2\<close>: \<^verbatim>\<open>client.getOpenOrders()\<close> before and after the
    lock is taken; \<open>Returns None\<close> is an answer that is not an array;
  \<^item> \<open>getMarket\<close>, \<open>postOrder\<close>: \<^verbatim>\<open>client.getMarket\<close> and \<^verbatim>\<open>client.createAndPostOrder\<close>.
\<close>

record world =
  findMarketsA :: "string \<Rightarrow> market option \<times> market option"
  findMarketsL :: "string \<Rightarrow> market list"
  nowA :: "string \<Rightarrow> int"
  getPriceA :: "string \<Rightarrow> string \<Rightarrow> rat answer"
  getTime :: "string \<Rightarrow> int option"
  candles :: "candle list option"
  findMarketsC :: "market option \<times> market option"
  getPriceC :: "string \<Rightarrow> rat answer"
  parseTokenIds :: "string \<Rightarrow> string list answer"
  parsePrices :: "string \<Rightarrow> rat list answer"
  openOrders1 :: "openOrder list option answer"
  openOrders2 :: "openOrder list option answer"
  getMarket :: "string option \<Rightarrow> clobMarket answer"
  postOrder :: "orderArgs \<Rightarrow> orderResponse answer"

section \<open>JavaScript idioms\<close>

text \<open>An optional string is truthy when it is present and not empty.\<close>

definition truthy :: "string option \<Rightarrow> string option" where
  "truthy v = (case v of None \<Rightarrow> None | Some str \<Rightarrow> if str = [] then None else Some str)"

text \<open>\<^verbatim>\<open>a || b\<close> on optional strings.\<close>

definition or_else :: "string option \<Rightarrow> string option \<Rightarrow> string option" where
  "or_else a b = (case truthy a of Some str \<Rightarrow> Some str | None \<Rightarrow> b)"

text \<open>\<^verbatim>\<open>x > y\<close> where \<open>x\<close> may be \<^verbatim>\<open>NaN\<close>: every comparison with \<^verbatim>\<open>NaN\<close> is false.\<close>

definition js_gt :: "rat option \<Rightarrow> rat \<Rightarrow> bool" where
  "js_gt x y = (case x of None \<Rightarrow> False | Some v \<Rightarrow> v > y)"

text \<open>\<^verbatim>\<open>xs[0]\<close>: \<^verbatim>\<open>undefined\<close> on an empty array.\<close>

definition first :: "'a list \<Rightarrow> 'a option" where
  "first xs = (case xs of [] \<Rightarrow> None | x # _ \<Rightarrow> Some x)"

text \<open>\<^verbatim>\<open>trackedMarkets.has(k)\<close>.\<close>

definition has :: "(string \<times> trackedInfo) list \<Rightarrow> string \<Rightarrow> bool" where
  "has tm k = (map_of tm k \<noteq> None)"

text \<open>\<^verbatim>\<open>const details = m.markets?.[0] || m\<close>.\<close>

definition details :: "market \<Rightarrow> market" where
  "details m = (case first (markets m) of Some d \<Rightarrow> d | None \<Rightarrow> m)"

section \<open>The order gateway\<close>

text \<open>
  \<^verbatim>\<open>hasOpenOrderForMarket(conditionId)\<close>; \<open>ans\<close> is the answer of
  \<^verbatim>\<open>client.getOpenOrders()\<close> at this call.
\<close>

definition hasOpenOrderForMarket ::
  "'a bot_scheme \<Rightarrow> openOrder list option answer \<Rightarrow> string \<Rightarrow> bool" where
  "hasOpenOrderForMarket s ans cid =
     (if \<not> client s then False
      else case ans of
             Throws \<Rightarrow> False
           | Returns None \<Rightarrow> False
           | Returns (Some orders) \<Rightarrow> list_ex (\<lambda>order. order_market order = cid) orders)"

text \<open>\<^verbatim>\<open>tickSizeMap[market.minimum_tick_size] || "0.01"\<close>.\<close>

definition tickSizeOf :: "clobMarket \<Rightarrow> rat" where
  "tickSizeOf m =
     (if minimum_tick_size m = 1/10 \<or> minimum_tick_size m = 1/100 \<or>
         minimum_tick_size m = 1/1000 \<or> minimum_tick_size m = 1/10000
      then minimum_tick_size m else 1/100)"

text \<open>
  \<^verbatim>\<open>placeOrder(conditionId, tokenId, bidPrice, side)\<close>. It returns \<^verbatim>\<open>null\<close> (\<open>None\<close>)
  without a client, when \<^verbatim>\<open>getMarket\<close> throws, when the price is not positive and when
  \<^verbatim>\<open>createAndPostOrder\<close> throws; it never throws itself. The order's size is computed
  from \<^verbatim>\<open>this.investmentAmount\<close>. The method changes no field of the bot: the
  model returns its result together with the requests it has sent.
\<close>

definition placeOrder ::
  "world \<Rightarrow> string option \<Rightarrow> string \<Rightarrow> rat \<Rightarrow> side \<Rightarrow> 'a bot_scheme
     \<Rightarrow> orderResponse option \<times> request list" where
  "placeOrder w cid tokenId bidPrice sd s =
     (if \<not> client s then (None, [])
      else case getMarket w cid of
             Throws \<Rightarrow> (None, [])
           | Returns m \<Rightarrow>
               if bidPrice \<le> 0 then (None, [])
               else
                 let sz = of_int \<lfloor>investmentAmount s / bidPrice * 100\<rfloor> / 100;
                     args = \<lparr>tokenID = tokenId, price = bidPrice, size = sz,
                             tickSize = tickSizeOf m, negRisk = neg_risk m\<rparr>
                 in case postOrder w args of
                      Throws \<Rightarrow> (None, [PostOrder cid args])
                    | Returns r \<Rightarrow> (Some r, [PostOrder cid args]))"

text \<open>\<^verbatim>\<open>!orderResult?.orderID\<close> is false exactly when an order id came back.\<close>

definition hasOrderID :: "orderResponse option \<Rightarrow> bool" where
  "hasOrderID r = (case r of None \<Rightarrow> False | Some resp \<Rightarrow> truthy (orderID resp) \<noteq> None)"

section \<open>The quote reader\<close>

text \<open>\<^verbatim>\<open>Number(prices[i] || 0)\<close>.\<close>

definition item :: "rat list \<Rightarrow> nat \<Rightarrow> rat" where
  "item ps i = (if i < length ps then ps ! i else 0)"

text \<open>
  The prices taken from \<^verbatim>\<open>market.outcomePrices\<close> when the price request throws; they
  stay zero when the field is missing or does not parse.
\<close>

definition fallbackPrices :: "world \<Rightarrow> market \<Rightarrow> rat \<times> rat" where
  "fallbackPrices w m =
     (case truthy (outcomePrices m) of
        None \<Rightarrow> (0, 0)
      | Some str \<Rightarrow>
          (case parsePrices w str of
             Throws \<Rightarrow> (0, 0)
           | Returns ps \<Rightarrow> (item ps 0, item ps 1)))"

text \<open>
  \<^verbatim>\<open>getTicketPrices(market)\<close> for a market that is an object; \<open>cl\<close> says whether
  \<^verbatim>\<open>this.client\<close> is set and \<open>getPrice\<close> answers the price requests of this call.
  The result is \<^verbatim>\<open>null\<close> without token ids and when both prices are zero. The two
  prices are assigned only after both requests have answered, so the fallback replaces
  both.
\<close>

definition readPrices ::
  "world \<Rightarrow> (string \<Rightarrow> rat answer) \<Rightarrow> bool \<Rightarrow> market \<Rightarrow> ticketPrices option" where
  "readPrices w getPrice cl m =
     (case truthy (clobTokenIds m) of
        None \<Rightarrow> None
      | Some str \<Rightarrow>
          (case parseTokenIds w str of
             Throws \<Rightarrow> None
           | Returns tokenIds \<Rightarrow>
               (case (truthy (first tokenIds), truthy (first (drop 1 tokenIds))) of
                  (Some u, Some d) \<Rightarrow>
                    (case (if cl
                           then (case getPrice u of
                                   Throws \<Rightarrow> fallbackPrices w m
                                 | Returns a \<Rightarrow>
                                     (case getPrice d of
                                        Throws \<Rightarrow> fallbackPrices w m
                                      | Returns b \<Rightarrow> (a, b)))
                           else (0, 0)) of
                       (upPrice, downPrice) \<Rightarrow>
                         if upPrice = 0 \<and> downPrice = 0 then None
                         else Some \<lparr>up = upPrice, down = downPrice,
                                    upTokenId = u, downTokenId = d\<rparr>)
                | _ \<Rightarrow> None)))"

text \<open>
  \<^verbatim>\<open>getTicketPrices(market)\<close> as it is called: reading \<^verbatim>\<open>market.clobTokenIds\<close> of
  \<^verbatim>\<open>null\<close> throws. The result comes with the call, for the record of requests.
\<close>

definition getTicketPrices ::
  "world \<Rightarrow> (string \<Rightarrow> rat answer) \<Rightarrow> 'a bot_scheme \<Rightarrow> market option
     \<Rightarrow> ticketPrices option answer \<times> request list" where
  "getTicketPrices w getPrice s m =
     (case m of
        None \<Rightarrow> (Throws, [])
      | Some mk \<Rightarrow> (Returns (readPrices w getPrice (client s) mk), [QuoteLookup mk]))"

text \<open>The bot after the requests \<open>rq\<close> have gone out.\<close>

definition sending :: "request list \<Rightarrow> 'a bot_scheme \<Rightarrow> 'a bot_scheme" where
  "sending rq s = s\<lparr>sent := sent s @ rq\<rparr>"

section \<open>Resolving tracked markets\<close>

text \<open>
  The search of a tracked market among the current and the next window's markets:
  \<^verbatim>\<open>[current, next].filter(m => m !== null).find(m => details(m).conditionId === info.conditionId)\<close>.
\<close>

definition present :: "market option \<times> market option \<Rightarrow> market list" where
  "present cn = List.map_filter id [fst cn, snd cn]"

definition findTracked :: "market list \<Rightarrow> trackedInfo \<Rightarrow> market option" where
  "findTracked ms info =
     List.find (\<lambda>m. conditionId (details m) = Some (info_conditionId info)) ms"

text \<open>\<^verbatim>\<open>(new Date(endDate).getTime() - Date.now()) / 1000\<close>.\<close>

definition timeLeftSeconds :: "int option \<Rightarrow> int \<Rightarrow> rat option" where
  "timeLeftSeconds e now =
     (case e of None \<Rightarrow> None | Some t \<Rightarrow> Some (of_int (t - now) / 1000))"

text \<open>The win condition: the quote of the side that was bet is at least 99 cents.\<close>

definition weWon :: "trackedInfo \<Rightarrow> ticketPrices \<Rightarrow> bool" where
  "weWon info prices =
     (if info_side info = UP then up prices \<ge> 0.99 else down prices \<ge> 0.99)"

text \<open>The stake update of \<^verbatim>\<open>bot-15min.ts\<close> (``Step 2: Update bet amount based on result'').\<close>

definition applyResult :: "bool \<Rightarrow> 'a bot_scheme \<Rightarrow> 'a bot_scheme" where
  "applyResult won s =
     (if won
      then s\<lparr>currentBetAmount := initialAmount s,
             investmentAmount := initialAmount s,
             waitingFor5Consecutive := True\<rparr>
      else s\<lparr>currentBetAmount := 2 * currentBetAmount s,
             investmentAmount := 2 * currentBetAmount s\<rparr>)"

text \<open>
  The stake update of the older variant: on a loss with the previous bet within 0.01
  of sixteen times the initial amount, the bet is reset and the trading side flips.
\<close>

definition isFifthConsecutiveLoss :: "'a bot_scheme \<Rightarrow> bool" where
  "isFifthConsecutiveLoss s =
     (\<bar>currentBetAmount s - 16 * initialAmount s\<bar> < 0.01)"

definition flip :: "side \<Rightarrow> side" where
  "flip sd = (if sd = UP then DOWN else UP)"

definition applyResult_cb :: "bool \<Rightarrow> 'a bot_scheme \<Rightarrow> 'a bot_scheme" where
  "applyResult_cb won s =
     (if won then s\<lparr>currentBetAmount := initialAmount s\<rparr>
      else if isFifthConsecutiveLoss s
      then s\<lparr>currentBetAmount := initialAmount s, tradingSide := flip (tradingSide s)\<rparr>
      else s\<lparr>currentBetAmount := 2 * currentBetAmount s\<rparr>)"

text \<open>
  What one iteration does once the market of the entry has been looked up; shared by the
  two variants, which differ in the grace threshold (\<open>grace\<close>: 5 and 1 seconds) and in
  the stake update (\<open>upd\<close>). A \<^verbatim>\<open>continue\<close> returns the state; an exception of
  \<^verbatim>\<open>getTicketPrices\<close> is caught by the \<^verbatim>\<open>catch\<close> of the iteration, which only logs.
\<close>

definition settle ::
  "rat \<Rightarrow> (bool \<Rightarrow> 'a bot_scheme \<Rightarrow> 'a bot_scheme) \<Rightarrow> world \<Rightarrow> market option
     \<Rightarrow> string \<times> trackedInfo \<Rightarrow> 'a bot_scheme \<Rightarrow> 'a bot_scheme" where
  "settle grace upd w found e s =
     (case found of
        None \<Rightarrow> s
      | Some marketDetails \<Rightarrow>
          let d = details marketDetails in
          case truthy (or_else (endDate d) (end_date_iso d)) of
            None \<Rightarrow> s
          | Some ed \<Rightarrow>
              if js_gt (timeLeftSeconds (getTime w ed) (nowA w (fst e))) grace then s
              else
                let s1 = s\<lparr>trackedMarkets := AList.delete (fst e) (trackedMarkets s)\<rparr> in
                case getTicketPrices w (getPriceA w (fst e)) s1 (Some d) of
                  (Throws, rq) \<Rightarrow> sending rq s1
                | (Returns None, rq) \<Rightarrow> sending rq s1
                | (Returns (Some prices), rq) \<Rightarrow>
                    upd (weWon (snd e) prices) (sending rq s1))"

text \<open>One iteration of the loop of \<^verbatim>\<open>checkMarketResults\<close> in \<^verbatim>\<open>bot-15min.ts\<close>.\<close>

definition resolveTracked ::
  "world \<Rightarrow> string \<times> trackedInfo \<Rightarrow> 'a bot_scheme \<Rightarrow> 'a bot_scheme" where
  "resolveTracked w e s =
     settle 5 applyResult w (findTracked (present (findMarketsA w (fst e))) (snd e)) e s"

text \<open>
  One iteration of the loop in the older variant: it skips without a client, searches
  the array that \<^verbatim>\<open>findBTC15MinMarkets\<close> returns there, and waits until one second
  is left.
\<close>

definition resolveTracked_cb ::
  "world \<Rightarrow> string \<times> trackedInfo \<Rightarrow> 'a bot_scheme \<Rightarrow> 'a bot_scheme" where
  "resolveTracked_cb w e s =
     (if \<not> client s then s
      else settle 1 applyResult_cb w (findTracked (findMarketsL w (fst e)) (snd e)) e s)"

text \<open>
  The loops. Only the entry of the running iteration is ever deleted, so iterating over
  the entries as they were when the loop started visits what the live iterator visits.
\<close>

definition stepA :: "world \<Rightarrow> 'a bot_scheme \<Rightarrow> 'a bot_scheme" where
  "stepA w s = fold (resolveTracked w) (trackedMarkets s) s"

definition checkMarketResults_cb :: "world \<Rightarrow> 'a bot_scheme \<Rightarrow> 'a bot_scheme" where
  "checkMarketResults_cb w s = fold (resolveTracked_cb w) (trackedMarkets s) s"

section \<open>The candle gate and the betting step\<close>

text \<open>\<^verbatim>\<open>candle.close > candle.open ? "UP" : "DOWN"\<close>.\<close>

definition candleColor :: "candle \<Rightarrow> side" where
  "candleColor c = (if close_price c > open_price c then UP else DOWN)"

definition candleColors :: "candle list \<Rightarrow> side list" where
  "candleColors cs = map candleColor cs"

text \<open>\<^verbatim>\<open>candleColors.every(color => color === candleColors[0])\<close>.\<close>

definition allSameColor :: "side list \<Rightarrow> bool" where
  "allSameColor colors = list_all (\<lambda>color. Some color = first colors) colors"

text \<open>\<^verbatim>\<open>dominantColor === "UP" ? "DOWN" : "UP"\<close>, with \<^verbatim>\<open>dominantColor = candleColors[0]\<close>.\<close>

definition oppositeColor :: "side list \<Rightarrow> side" where
  "oppositeColor colors = (if first colors = Some UP then DOWN else UP)"

text \<open>
  The body of the \<^verbatim>\<open>try\<close> that runs with the lock held in \<^verbatim>\<open>checkMarketResults\<close>.
  \<open>cid\<close> is the \<^verbatim>\<open>conditionId\<close> that was checked, \<open>ocid\<close> the one handed to
  \<^verbatim>\<open>placeOrder\<close> (\<^verbatim>\<open>next?.conditionId!\<close>).
\<close>

definition lockedC ::
  "world \<Rightarrow> string \<Rightarrow> string option \<Rightarrow> string \<Rightarrow> rat \<Rightarrow> side \<Rightarrow> 'a bot_scheme
     \<Rightarrow> 'a bot_scheme" where
  "lockedC w cid ocid tokenId bidPrice sd s =
     (if has (trackedMarkets s) cid then s
      else if hasOpenOrderForMarket s (openOrders2 w) cid then s
      else
        let s1 = s\<lparr>trackedMarkets :=
                     AList.update cid \<lparr>info_conditionId = cid, info_side = sd\<rparr>
                       (trackedMarkets s)\<rparr>
        in case placeOrder w ocid tokenId bidPrice sd s1 of
             (orderResult, rq) \<Rightarrow>
               if \<not> hasOrderID orderResult
               then (sending rq s1)\<lparr>trackedMarkets := AList.delete cid (trackedMarkets s1)\<rparr>
               else sending rq s1)"

text \<open>
  What follows the detection of a uniform run (``Find available market (prefer current,
  fallback to next)''). The code reads the \<^verbatim>\<open>conditionId\<close> from \<^verbatim>\<open>current\<close>, the
  prices from \<^verbatim>\<open>next\<close>, and places the order with \<^verbatim>\<open>next\<close>'s \<^verbatim>\<open>conditionId\<close>.
  An exception of \<^verbatim>\<open>getTicketPrices(next!)\<close> is caught by the outer \<^verbatim>\<open>catch\<close>, which
  only logs. The \<^verbatim>\<open>finally\<close> releases the lock on every way out of the \<^verbatim>\<open>try\<close>.
\<close>

definition bet :: "world \<Rightarrow> side \<Rightarrow> 'a bot_scheme \<Rightarrow> 'a bot_scheme" where
  "bet w opp s =
     (case findMarketsC w of
        (current, next) \<Rightarrow>
          (case (case current of Some c \<Rightarrow> Some c | None \<Rightarrow> next) of
             None \<Rightarrow> s
           | Some market \<Rightarrow>
               (case truthy (case current of None \<Rightarrow> None | Some c \<Rightarrow> conditionId c) of
                  None \<Rightarrow> s
                | Some cid \<Rightarrow>
                    if has (trackedMarkets s) cid then s
                    else if hasOpenOrderForMarket s (openOrders1 w) cid then s
                    else
                      (case getTicketPrices w (getPriceC w) s next of
                         (Throws, rq) \<Rightarrow> sending rq s
                       | (Returns None, rq) \<Rightarrow> sending rq s
                       | (Returns (Some prices), rq) \<Rightarrow>
                           let tokenId = (if opp = UP then upTokenId prices
                                          else downTokenId prices);
                               bidPrice = (if opp = UP then up prices else down prices)
                           in if orderLock s then sending rq s
                              else (lockedC w cid
                                      (case next of None \<Rightarrow> None | Some n \<Rightarrow> conditionId n)
                                      tokenId bidPrice opp
                                      ((sending rq s)\<lparr>orderLock := True\<rparr>))
                                   \<lparr>orderLock := False\<rparr>))))"

text \<open>``Step 3'' of \<^verbatim>\<open>checkMarketResults\<close>: the candle gate, then the bet.\<close>

definition stepC :: "world \<Rightarrow> 'a bot_scheme \<Rightarrow> 'a bot_scheme" where
  "stepC w s =
     (case candles w of
        None \<Rightarrow> s
      | Some cs \<Rightarrow>
          if int (length cs) \<noteq> consecutiveCandlesCount s then s
          else if allSameColor (candleColors cs)
          then bet w (oppositeColor (candleColors cs))
                 (if waitingFor5Consecutive s then s\<lparr>waitingFor5Consecutive := False\<rparr>
                  else s)
          else s)"

definition checkMarketResults :: "world \<Rightarrow> 'a bot_scheme \<Rightarrow> 'a bot_scheme" where
  "checkMarketResults w s = (if \<not> client s then s else stepC w (stepA w s))"

text \<open>\<^verbatim>\<open>tick\<close> of \<^verbatim>\<open>bot-15min.ts\<close>: it awaits \<^verbatim>\<open>checkMarketResults\<close> and nothing else.\<close>

definition tick :: "world \<Rightarrow> 'a bot_scheme \<Rightarrow> 'a bot_scheme" where
  "tick w s = checkMarketResults w s"

section \<open>The fixed-side entry: \<^verbatim>\<open>checkMarket\<close>\<close>

text \<open>The body of the \<^verbatim>\<open>try\<close> that runs with the lock held in \<^verbatim>\<open>checkMarket\<close>.\<close>

definition lockedM ::
  "world \<Rightarrow> string \<Rightarrow> string \<Rightarrow> rat \<Rightarrow> side \<Rightarrow> rat \<Rightarrow> 'a bot_scheme \<Rightarrow> 'a bot_scheme" where
  "lockedM w cid tokenId bidPrice sd betAmountForThisOrder s =
     (if has (trackedMarkets s) cid then s
      else if hasOpenOrderForMarket s (openOrders2 w) cid then s
      else
        let s1 = s\<lparr>trackedMarkets :=
                     AList.update cid \<lparr>info_conditionId = cid, info_side = sd\<rparr>
                       (trackedMarkets s),
                   investmentAmount := betAmountForThisOrder\<rparr>
        in case placeOrder w (Some cid) tokenId bidPrice sd s1 of
             (orderResult, rq) \<Rightarrow>
               if \<not> hasOrderID orderResult
               then (sending rq s1)\<lparr>trackedMarkets := AList.delete cid (trackedMarkets s1)\<rparr>
               else sending rq s1)"

text \<open>
  The side to buy and its token and price, or \<open>None\<close> when the side's price is at
  least 50 cents.
\<close>

definition entry :: "side \<Rightarrow> ticketPrices \<Rightarrow> (string \<times> side \<times> rat) option" where
  "entry currentSide prices =
     (if currentSide = DOWN
      then (if down prices * 100 \<ge> 50 then None
            else Some (downTokenId prices, DOWN, down prices))
      else (if up prices * 100 \<ge> 50 then None
            else Some (upTokenId prices, UP, up prices)))"

text \<open>
  \<^verbatim>\<open>checkMarket(market)\<close>: the state it leaves behind. An exception of
  \<^verbatim>\<open>getTicketPrices\<close> leaves the method before the lock is taken.
\<close>

definition checkMarket :: "world \<Rightarrow> market \<Rightarrow> 'a bot_scheme \<Rightarrow> 'a bot_scheme" where
  "checkMarket w market s =
     (case truthy (conditionId (details market)) of
        None \<Rightarrow> s
      | Some cid \<Rightarrow>
          if cid \<in> processedMarkets s then s
          else if orderLock s then s
          else if has (trackedMarkets s) cid
          then s\<lparr>processedMarkets := insert cid (processedMarkets s)\<rparr>
          else if hasOpenOrderForMarket s (openOrders1 w) cid
          then s\<lparr>processedMarkets := insert cid (processedMarkets s)\<rparr>
          else
            (case getTicketPrices w (getPriceC w) s (Some (details market)) of
               (Throws, rq) \<Rightarrow> sending rq s
             | (Returns None, rq) \<Rightarrow> sending rq s
             | (Returns (Some prices), rq) \<Rightarrow>
                 (case entry (tradingSide s) prices of
                    None \<Rightarrow> sending rq s
                  | Some (tokenId, sd, bidPrice) \<Rightarrow>
                      if orderLock s then sending rq s
                      else (lockedM w cid tokenId bidPrice sd (currentBetAmount s)
                              ((sending rq s)\<lparr>orderLock := True,
                                  processedMarkets := insert cid (processedMarkets s)\<rparr>))
                           \<lparr>orderLock := False\<rparr>)))"

section \<open>The status wrapper\<close>

text \<open>
  \<^verbatim>\<open>bot-15min-instance\<close>: the class extends the bot with counters and a history. Its
  override of \<^verbatim>\<open>checkMarketResults\<close> is commented out, so the instance runs the
  inherited method; the functions above apply to it as they are, since they are defined
  on every extension of the record \<open>bot\<close>.
\<close>

datatype result = win | loss

record historyEntry =
  marketId :: string
  result :: result
  betAmount :: rat
  entry_side :: side
  timestamp :: string

record botInstance = bot +
  winCount :: nat
  lossCount :: nat
  lastResult :: "result option"
  lastMarketId :: "string option"
  isRunning :: bool
  history :: "historyEntry list"
  previousBetAmount :: rat

record statusSnapshot =
  st_running :: bool
  st_currentBetAmount :: rat
  st_initialAmount :: rat
  st_winCount :: nat
  st_lossCount :: nat
  st_lastResult :: "result option"
  st_lastMarketId :: "string option"
  st_history :: "historyEntry list"
  st_trackedMarketsCount :: nat
  st_tradingSide :: side
  st_consecutiveCandlesCount :: int

definition getStatus :: "botInstance \<Rightarrow> statusSnapshot" where
  "getStatus b =
     \<lparr>st_running = isRunning b,
      st_currentBetAmount = currentBetAmount b,
      st_initialAmount = initialAmount b,
      st_winCount = winCount b,
      st_lossCount = lossCount b,
      st_lastResult = lastResult b,
      st_lastMarketId = lastMarketId b,
      st_history = history b,
      st_trackedMarketsCount = length (trackedMarkets b),
      st_tradingSide = tradingSide b,
      st_consecutiveCandlesCount = consecutiveCandlesCount b\<rparr>"

section \<open>Construction and start-up\<close>

text \<open>
  The constructor, with the initial amount and the run length of the candle gate as its
  options, and the effect of a successful \<^verbatim>\<open>initialize()\<close>. The safety check of the
  constructor can only assign the initial amount to the current bet once more.
\<close>

definition constructor :: "rat \<Rightarrow> int \<Rightarrow> bot" where
  "constructor amount n =
     \<lparr>initialAmount = amount, currentBetAmount = amount, investmentAmount = amount,
      client = False, orderLock = False, processedMarkets = {}, trackedMarkets = [],
      tradingSide = UP, waitingFor5Consecutive = False, consecutiveCandlesCount = n,
      sent = []\<rparr>"

definition constructor_instance :: "rat \<Rightarrow> int \<Rightarrow> botInstance" where
  "constructor_instance amount n =
     \<lparr>initialAmount = amount, currentBetAmount = amount, investmentAmount = amount,
      client = False, orderLock = False, processedMarkets = {}, trackedMarkets = [],
      tradingSide = UP, waitingFor5Consecutive = False, consecutiveCandlesCount = n,
      sent = [],
      winCount = 0, lossCount = 0, lastResult = None, lastMarketId = None,
      isRunning = False, history = [], previousBetAmount = amount\<rparr>"

definition initialize :: "'a bot_scheme \<Rightarrow> 'a bot_scheme" where
  "initialize s = s\<lparr>client := True\<rparr>"

section \<open>Example inputs\<close>

text \<open>
  Two markets of consecutive windows, closing 900 and 1800 seconds after the epoch, and
  a market whose answer carries no close time.
\<close>

definition marketA :: market where
  "marketA = Market (Some ''A'') (Some ''1970-01-01T00:15:00Z'') None
               (Some ''[A-up, A-down]'') None []"

definition marketB :: market where
  "marketB = Market (Some ''B'') (Some ''1970-01-01T00:30:00Z'') None
               (Some ''[B-up, B-down]'') None []"

definition marketA_undated :: market where
  "marketA_undated = Market (Some ''A'') None None (Some ''[A-up, A-down]'') None []"

text \<open>
  Market A as an answer whose \<^verbatim>\<open>endDate\<close> is not a date; its \<^verbatim>\<open>end_date_iso\<close> is the
  close time, which the code does not read when \<^verbatim>\<open>endDate\<close> is a non-empty string.
\<close>

definition marketA_garbled :: market where
  "marketA_garbled = Market (Some ''A'') (Some ''soon'') (Some ''1970-01-01T00:15:00Z'')
                       (Some ''[A-up, A-down]'') None []"

definition clock :: "string \<Rightarrow> int option" where
  "clock str =
     (if str = ''1970-01-01T00:15:00Z'' then Some 900000
      else if str = ''1970-01-01T00:30:00Z'' then Some 1800000
      else None)"

definition tokens :: "string \<Rightarrow> string list answer" where
  "tokens str =
     (if str = ''[A-up, A-down]'' then Returns [''A-up'', ''A-down'']
      else if str = ''[B-up, B-down]'' then Returns [''B-up'', ''B-down'']
      else Throws)"

text \<open>UP at 25 cents and DOWN at 80 on both markets; and UP settled at one dollar.\<close>

definition openQuotes :: "string \<Rightarrow> rat answer" where
  "openQuotes token =
     (if token = ''A-up'' \<or> token = ''B-up'' then Returns 0.25 else Returns 0.80)"

definition settledUp :: "string \<Rightarrow> rat answer" where
  "settledUp token =
     (if token = ''A-up'' \<or> token = ''B-up'' then Returns 1 else Returns 0)"

text \<open>A world in which nothing is found and every call answers.\<close>

definition quiet :: world where
  "quiet =
     \<lparr>findMarketsA = (\<lambda>_. (None, None)), findMarketsL = (\<lambda>_. []), nowA = (\<lambda>_. 0),
      getPriceA = (\<lambda>_ _. Throws), getTime = clock, candles = None,
      findMarketsC = (None, None), getPriceC = (\<lambda>_. Throws),
      parseTokenIds = tokens, parsePrices = (\<lambda>_. Throws),
      openOrders1 = Returns (Some []), openOrders2 = Returns (Some []),
      getMarket = (\<lambda>_. Returns \<lparr>minimum_tick_size = 1/100, neg_risk = False\<rparr>),
      postOrder = (\<lambda>_. Returns \<lparr>orderID = Some ''order-1'', status = ''live''\<rparr>)\<rparr>"

definition greenRun :: "candle list" where
  "greenRun = [\<lparr>open_price = 100, close_price = 101\<rparr>,
               \<lparr>open_price = 101, close_price = 103\<rparr>]"

text \<open>
  Early in the window of market A: two green candles, A is current and B is next, both
  quoted, no open order anywhere.
\<close>

definition betting :: world where
  "betting =
     quiet\<lparr>candles := Some greenRun,
           findMarketsA := (\<lambda>_. (Some marketA, Some marketB)),
           findMarketsL := (\<lambda>_. [marketA, marketB]),
           findMarketsC := (Some marketA, Some marketB),
           getPriceA := (\<lambda>_. openQuotes),
           getPriceC := openQuotes\<rparr>"

text \<open>
  Two seconds before A closes, with the order placed on B earlier in the window still
  open at the gateway.
\<close>

definition closing :: world where
  "closing =
     betting\<lparr>nowA := (\<lambda>_. 898000),
             openOrders1 := Returns (Some [\<lparr>order_market = ''B''\<rparr>]),
             openOrders2 := Returns (Some [\<lparr>order_market = ''B''\<rparr>])\<rparr>"

text \<open>
  Two seconds before A closes, with no candles; the price requests throw and the markets
  carry no \<^verbatim>\<open>outcomePrices\<close> to fall back on.
\<close>

definition quoteless :: world where
  "quoteless = betting\<lparr>nowA := (\<lambda>_. 898000), candles := None, getPriceA := (\<lambda>_ _. Throws)\<rparr>"

text \<open>Two seconds before A closes, with no candles and UP quoted at one dollar.\<close>

definition winning :: world where
  "winning =
     betting\<lparr>nowA := (\<lambda>_. 898000), candles := None,
             getPriceA := (\<lambda>_. settledUp)\<rparr>"

text \<open>Fifteen minutes before A closes, with no candles; both markets are quoted.\<close>

definition early :: world where
  "early = betting\<lparr>candles := None\<rparr>"

text \<open>The same, with the answer for A carrying the \<^verbatim>\<open>endDate\<close> that does not parse.\<close>

definition garbled :: world where
  "garbled = early\<lparr>findMarketsA := (\<lambda>_. (Some marketA_garbled, Some marketB))\<rparr>"

definition ready :: bot where
  "ready = initialize (constructor 10 2)"

definition entryA :: "string \<times> trackedInfo" where
  "entryA = (''A'', \<lparr>info_conditionId = ''A'', info_side = UP\<rparr>)"

definition entryB :: "string \<times> trackedInfo" where
  "entryB = (''B'', \<lparr>info_conditionId = ''B'', info_side = UP\<rparr>)"

definition holdingA :: bot where
  "holdingA = ready\<lparr>trackedMarkets := [entryA]\<rparr>"

definition holdingB :: bot where
  "holdingB = ready\<lparr>trackedMarkets := [entryB]\<rparr>"

definition instanceHoldingA :: botInstance where
  "instanceHoldingA = (initialize (constructor_instance 10 2))\<lparr>trackedMarkets := [entryA]\<rparr>"

section \<open>Unfolding rules\<close>

lemmas example_defs =
  constructor_def constructor_instance_def initialize_def marketA_def marketB_def
  marketA_undated_def marketA_garbled_def early_def garbled_def clock_def tokens_def openQuotes_def settledUp_def quiet_def
  greenRun_def betting_def closing_def quoteless_def winning_def ready_def entryA_def
  entryB_def holdingA_def holdingB_def instanceHoldingA_def

lemmas idiom_defs =
  truthy_def or_else_def js_gt_def first_def has_def details_def present_def
  findTracked_def timeLeftSeconds_def List.map_filter_def

lemmas gateway_defs =
  hasOpenOrderForMarket_def tickSizeOf_def placeOrder_def hasOrderID_def
  item_def fallbackPrices_def readPrices_def getTicketPrices_def sending_def

lemmas stepA_defs = weWon_def applyResult_def settle_def resolveTracked_def stepA_def

lemmas stepC_defs =
  candleColor_def candleColors_def allSameColor_def oppositeColor_def lockedC_def
  bet_def stepC_def checkMarketResults_def tick_def

lemmas checkMarket_defs = lockedM_def entry_def checkMarket_def

lemmas run_defs = example_defs idiom_defs gateway_defs stepA_defs stepC_defs Let_def

section \<open>What a tick leaves alone\<close>

text \<open>
  An observation \<open>f\<close> of the bot that none of the fields written by a tick can change
  is the same after the tick. The lock is written, but restored.
\<close>

lemma settle_frame:
  assumes "\<And>b x. f (upd b x) = f x"
    and "\<And>x a. f (x\<lparr>trackedMarkets := a\<rparr>) = f x"
    and "\<And>x a. f (x\<lparr>sent := a\<rparr>) = f x"
  shows "f (settle g upd w found e s) = f s"
  by (simp add: settle_def Let_def sending_def assms
      split: option.splits answer.splits prod.splits)

lemma stepA_frame:
  assumes "\<And>x a. f (x\<lparr>currentBetAmount := a\<rparr>) = f x"
    and "\<And>x a. f (x\<lparr>investmentAmount := a\<rparr>) = f x"
    and "\<And>x a. f (x\<lparr>waitingFor5Consecutive := a\<rparr>) = f x"
    and "\<And>x a. f (x\<lparr>trackedMarkets := a\<rparr>) = f x"
    and "\<And>x a. f (x\<lparr>sent := a\<rparr>) = f x"
  shows "f (stepA w s) = f s"
proof -
  have upd: "f (applyResult b x) = f x" for b x
    by (simp add: applyResult_def assms)
  have "f (fold (resolveTracked w) es x) = f x" for es x
    by (induction es arbitrary: x)
       (simp_all add: resolveTracked_def settle_frame [where f = f] upd assms)
  then show ?thesis
    by (simp add: stepA_def)
qed

lemma lockedC_frame:
  assumes "\<And>x a. f (x\<lparr>trackedMarkets := a\<rparr>) = f x"
    and "\<And>x a. f (x\<lparr>sent := a\<rparr>) = f x"
  shows "f (lockedC w cid ocid tok p sd s) = f s"
  by (simp add: lockedC_def Let_def sending_def assms split: prod.splits)

lemma bet_orderLock: "orderLock (bet w opp s) = orderLock s"
  by (simp add: bet_def Let_def sending_def lockedC_frame [where f = orderLock]
      split: option.splits answer.splits prod.splits)

lemma bet_frame:
  assumes "\<And>x a. f (x\<lparr>trackedMarkets := a\<rparr>) = f x"
    and "\<And>x a. f (x\<lparr>sent := a\<rparr>) = f x"
    and "\<And>x a. f (x\<lparr>orderLock := a\<rparr>) = f x"
  shows "f (bet w opp s) = f s"
  by (simp add: bet_def Let_def sending_def assms lockedC_frame [where f = f]
      split: option.splits answer.splits prod.splits)

lemma tick_frame:
  assumes "\<And>x a. f (x\<lparr>currentBetAmount := a\<rparr>) = f x"
    and "\<And>x a. f (x\<lparr>investmentAmount := a\<rparr>) = f x"
    and "\<And>x a. f (x\<lparr>waitingFor5Consecutive := a\<rparr>) = f x"
    and "\<And>x a. f (x\<lparr>trackedMarkets := a\<rparr>) = f x"
    and "\<And>x a. f (x\<lparr>sent := a\<rparr>) = f x"
    and "\<And>x a. f (x\<lparr>orderLock := a\<rparr>) = f x"
  shows "f (tick w s) = f s"
proof -
  have C: "f (stepC w x) = f x" for x
    by (simp add: stepC_def bet_frame [where f = f] assms split: option.splits)
  show ?thesis
    by (simp add: tick_def checkMarketResults_def C stepA_frame [where f = f] assms)
qed

lemma ticks_frame:
  assumes "\<And>x a. f (x\<lparr>currentBetAmount := a\<rparr>) = f x"
    and "\<And>x a. f (x\<lparr>investmentAmount := a\<rparr>) = f x"
    and "\<And>x a. f (x\<lparr>waitingFor5Consecutive := a\<rparr>) = f x"
    and "\<And>x a. f (x\<lparr>trackedMarkets := a\<rparr>) = f x"
    and "\<And>x a. f (x\<lparr>sent := a\<rparr>) = f x"
    and "\<And>x a. f (x\<lparr>orderLock := a\<rparr>) = f x"
  shows "f (fold tick ws s) = f s"
  by (induction ws arbitrary: s) (simp_all add: tick_frame [where f = f] assms)

lemma tick_orderLock: "orderLock (tick w s) = orderLock s"
proof -
  have A: "orderLock (stepA w x) = orderLock x" for x
    by (rule stepA_frame) simp_all
  have C: "orderLock (stepC w x) = orderLock x" for x
    by (simp add: stepC_def bet_orderLock split: option.splits)
  show ?thesis
    by (simp add: tick_def checkMarketResults_def A C)
qed

lemma checkMarket_orderLock: "orderLock (checkMarket w m s) = orderLock s"
  by (simp add: checkMarket_def lockedM_def Let_def sending_def
      split: option.splits answer.splits prod.splits)

lemma ticks_orderLock: "orderLock (fold tick ws s) = orderLock s"
  by (induction ws arbitrary: s) (simp_all add: tick_orderLock)

section \<open>The tracked markets\<close>

text \<open>The keys of \<^verbatim>\<open>trackedMarkets\<close> stay distinct: it is a map.\<close>

lemma has_delete: "\<not> has (AList.delete k tm) k"
  by (simp add: has_def delete_conv')

lemma settle_distinct:
  assumes "\<And>b x. trackedMarkets (upd b x) = trackedMarkets x"
    and "distinct (map fst (trackedMarkets s))"
  shows "distinct (map fst (trackedMarkets (settle g upd w found e s)))"
  using assms(2)
  by (simp add: settle_def Let_def sending_def assms(1) distinct_delete
      split: option.splits answer.splits prod.splits)

lemma stepA_distinct:
  assumes "distinct (map fst (trackedMarkets s))"
  shows "distinct (map fst (trackedMarkets (stepA w s)))"
proof -
  have upd: "trackedMarkets (applyResult b x) = trackedMarkets x" for b x
    by (simp add: applyResult_def)
  have "distinct (map fst (trackedMarkets x)) \<Longrightarrow>
        distinct (map fst (trackedMarkets (fold (resolveTracked w) es x)))" for es x
    by (induction es arbitrary: x) (simp_all add: resolveTracked_def settle_distinct upd)
  with assms show ?thesis
    by (simp add: stepA_def)
qed

lemma lockedC_distinct:
  "distinct (map fst (trackedMarkets s)) \<Longrightarrow>
   distinct (map fst (trackedMarkets (lockedC w cid ocid tok p sd s)))"
  by (simp add: lockedC_def Let_def sending_def distinct_update distinct_delete
      split: prod.splits)

lemma tick_distinct:
  assumes "distinct (map fst (trackedMarkets s))"
  shows "distinct (map fst (trackedMarkets (tick w s)))"
proof -
  have B: "distinct (map fst (trackedMarkets x)) \<Longrightarrow>
           distinct (map fst (trackedMarkets (bet w opp x)))" for x opp
    by (simp add: bet_def Let_def sending_def lockedC_distinct
        split: option.splits answer.splits prod.splits)
  have C: "distinct (map fst (trackedMarkets x)) \<Longrightarrow>
           distinct (map fst (trackedMarkets (stepC w x)))" for x
    by (simp add: stepC_def B split: option.splits)
  from assms show ?thesis
    by (simp add: tick_def checkMarketResults_def C stepA_distinct)
qed

lemma checkMarket_distinct:
  "distinct (map fst (trackedMarkets s)) \<Longrightarrow>
   distinct (map fst (trackedMarkets (checkMarket w m s)))"
  by (simp add: checkMarket_def lockedM_def Let_def sending_def distinct_update
      distinct_delete split: option.splits answer.splits prod.splits)

lemma ticks_distinct: "distinct (map fst (trackedMarkets (fold tick ws (constructor a n))))"
proof -
  have "distinct (map fst (trackedMarkets s)) \<Longrightarrow>
        distinct (map fst (trackedMarkets (fold tick ws s)))" for s :: bot
    by (induction ws arbitrary: s) (simp_all add: tick_distinct)
  then show ?thesis
    by (simp add: constructor_def)
qed

text \<open>What the methods of the order gateway send.\<close>

lemma placeOrder_requests:
  "snd (placeOrder w c tok p sd s) = [] \<or> (\<exists>a. snd (placeOrder w c tok p sd s) = [PostOrder c a])"
  by (simp add: placeOrder_def Let_def split: answer.splits)

lemma hasOpenOrderForMarket_client:
  "client s' = client s \<Longrightarrow>
   hasOpenOrderForMarket s' ans cid = hasOpenOrderForMarket s ans cid"
  by (simp add: hasOpenOrderForMarket_def)

lemma lockedM_sent:
  "sent (lockedM w cid tok p sd amt s) = sent s
   \<or> (\<exists>a. sent (lockedM w cid tok p sd amt s) = sent s @ [PostOrder (Some cid) a]
        \<and> \<not> has (trackedMarkets s) cid
        \<and> \<not> hasOpenOrderForMarket s (openOrders2 w) cid)"
proof (cases "has (trackedMarkets s) cid \<or> hasOpenOrderForMarket s (openOrders2 w) cid")
  case True
  then show ?thesis
    by (auto simp add: lockedM_def)
next
  case False
  let ?s1 = "s\<lparr>trackedMarkets :=
                 AList.update cid \<lparr>info_conditionId = cid, info_side = sd\<rparr> (trackedMarkets s),
               investmentAmount := amt\<rparr>"
  from placeOrder_requests [of w "Some cid" tok p sd ?s1] False show ?thesis
    by (auto simp add: lockedM_def Let_def sending_def split: prod.splits)
qed

lemma lockedC_sent:
  "sent (lockedC w cid ocid tok p sd s) = sent s
   \<or> (\<exists>a. sent (lockedC w cid ocid tok p sd s) = sent s @ [PostOrder ocid a]
        \<and> \<not> has (trackedMarkets s) cid
        \<and> \<not> hasOpenOrderForMarket s (openOrders2 w) cid)"
proof (cases "has (trackedMarkets s) cid \<or> hasOpenOrderForMarket s (openOrders2 w) cid")
  case True
  then show ?thesis
    by (auto simp add: lockedC_def)
next
  case False
  let ?s1 = "s\<lparr>trackedMarkets :=
                 AList.update cid \<lparr>info_conditionId = cid, info_side = sd\<rparr> (trackedMarkets s)\<rparr>"
  from placeOrder_requests [of w ocid tok p sd ?s1] False show ?thesis
    by (auto simp add: lockedC_def Let_def sending_def split: prod.splits)
qed

text \<open>
  In \<^verbatim>\<open>checkMarket\<close> the guard and the order are about the same market: an order goes
  out only for the market that was checked, and only if that market was neither tracked
  nor reported open, before the lock was taken and after.
\<close>

lemma checkMarket_guard:
  assumes "PostOrder c a \<in> set (sent (checkMarket w m s))"
    and "PostOrder c a \<notin> set (sent s)"
  shows "\<exists>cid. c = Some cid \<and> truthy (conditionId (details m)) = Some cid
           \<and> \<not> has (trackedMarkets s) cid
           \<and> \<not> hasOpenOrderForMarket s (openOrders1 w) cid
           \<and> \<not> hasOpenOrderForMarket s (openOrders2 w) cid"
proof (cases "truthy (conditionId (details m))")
  case None
  with assms show ?thesis
    by (simp add: checkMarket_def)
next
  case (Some cid)
  note cid = this
  show ?thesis
  proof (cases "cid \<in> processedMarkets s \<or> orderLock s \<or> has (trackedMarkets s) cid
                \<or> hasOpenOrderForMarket s (openOrders1 w) cid")
    case True
    with cid have "sent (checkMarket w m s) = sent s"
      by (auto simp add: checkMarket_def)
    with assms show ?thesis
      by simp
  next
    case False
    note go = this
    show ?thesis
    proof (cases "readPrices w (getPriceC w) (client s) (details m)")
      case None
      with assms cid go show ?thesis
        by (simp add: checkMarket_def getTicketPrices_def sending_def)
    next
      case (Some prices)
      note prices = this
      show ?thesis
      proof (cases "entry (tradingSide s) prices")
        case None
        with assms cid go prices show ?thesis
          by (simp add: checkMarket_def getTicketPrices_def sending_def)
      next
        case (Some x)
        obtain tok sd p where x: "x = (tok, sd, p)"
          by (cases x) auto
        let ?s1 = "(sending [QuoteLookup (details m)] s)
                     \<lparr>orderLock := True, processedMarkets := insert cid (processedMarkets s)\<rparr>"
        have res: "sent (checkMarket w m s) =
                   sent (lockedM w cid tok p sd (currentBetAmount s) ?s1)"
          using cid go prices Some x
          by (simp add: checkMarket_def getTicketPrices_def)
        have s1: "sent ?s1 = sent s @ [QuoteLookup (details m)]"
          "trackedMarkets ?s1 = trackedMarkets s" "client ?s1 = client s"
          by (simp_all add: sending_def)
        from lockedM_sent [of w cid tok p sd "currentBetAmount s" ?s1] assms res s1
        have "c = Some cid \<and> \<not> has (trackedMarkets s) cid
              \<and> \<not> hasOpenOrderForMarket ?s1 (openOrders2 w) cid"
          by auto
        with go cid s1(3) show ?thesis
          by (simp add: hasOpenOrderForMarket_client [of ?s1 s])
      qed
    qed
  qed
qed

text \<open>
  In the betting step of \<^verbatim>\<open>checkMarketResults\<close> the guard and the order are about two
  markets: every order it sends is for the next window's market, whose quotes it has
  looked up, while the tracked-position and open-order checks were made for the current
  window's market.
\<close>

lemma bet_order:
  assumes "PostOrder c a \<in> set (sent (bet w opp s))"
    and "PostOrder c a \<notin> set (sent s)"
  shows "\<exists>cur nxt cid. findMarketsC w = (Some cur, Some nxt)
           \<and> truthy (conditionId cur) = Some cid
           \<and> c = conditionId nxt
           \<and> QuoteLookup nxt \<in> set (sent (bet w opp s))
           \<and> \<not> has (trackedMarkets s) cid
           \<and> \<not> hasOpenOrderForMarket s (openOrders1 w) cid
           \<and> \<not> hasOpenOrderForMarket s (openOrders2 w) cid"
proof -
  obtain current nxt where cn: "findMarketsC w = (current, nxt)"
    by (cases "findMarketsC w")
  have unchanged: False if "sent (bet w opp s) = sent s"
    using that assms by simp
  show ?thesis
  proof (cases "truthy (case current of None \<Rightarrow> None | Some x \<Rightarrow> conditionId x)")
    case None
    with cn have "bet w opp s = s"
      by (simp add: bet_def split: option.splits)
    with unchanged show ?thesis
      by simp
  next
    case (Some cid)
    then obtain cur where cur: "current = Some cur" "truthy (conditionId cur) = Some cid"
      by (cases current) (simp_all add: truthy_def)
    show ?thesis
    proof (cases "has (trackedMarkets s) cid \<or> hasOpenOrderForMarket s (openOrders1 w) cid")
      case True
      with cn cur have "bet w opp s = s"
        by (auto simp add: bet_def)
      with unchanged show ?thesis
        by simp
    next
      case False
      show ?thesis
      proof (cases nxt)
        case None
        with cn cur False have "sent (bet w opp s) = sent s"
          by (simp add: bet_def getTicketPrices_def sending_def)
        with unchanged show ?thesis
          by simp
      next
        case (Some n)
        show ?thesis
        proof (cases "\<exists>prices. readPrices w (getPriceC w) (client s) n = Some prices
                             \<and> \<not> orderLock s")
          case no: False
          with cn cur False Some have "sent (bet w opp s) = sent s @ [QuoteLookup n]"
            by (auto simp add: bet_def getTicketPrices_def sending_def Let_def
                split: answer.splits option.splits)
          with assms show ?thesis
            by simp
        next
          case True
          then obtain prices
            where pr: "readPrices w (getPriceC w) (client s) n = Some prices" "\<not> orderLock s"
            by blast
          define tok where "tok = (if opp = UP then upTokenId prices else downTokenId prices)"
          define p where "p = (if opp = UP then up prices else down prices)"
          let ?s1 = "(sending [QuoteLookup n] s)\<lparr>orderLock := True\<rparr>"
          have res: "sent (bet w opp s) = sent (lockedC w cid (conditionId n) tok p opp ?s1)"
            using cn cur False Some pr
            by (simp add: bet_def getTicketPrices_def Let_def tok_def p_def)
          have s1: "sent ?s1 = sent s @ [QuoteLookup n]"
            "trackedMarkets ?s1 = trackedMarkets s" "client ?s1 = client s"
            by (simp_all add: sending_def)
          from lockedC_sent [of w cid "conditionId n" tok p opp ?s1] assms res s1
          have "c = conditionId n \<and> QuoteLookup n \<in> set (sent (bet w opp s))
                \<and> \<not> hasOpenOrderForMarket ?s1 (openOrders2 w) cid"
            by auto
          with False cn cur Some s1(3) show ?thesis
            by (simp add: hasOpenOrderForMarket_client [of ?s1 s])
        qed
      qed
    qed
  qed
qed

text \<open>
  C1. A tick is to submit no buy order for a market for which a tracked position exists or
  the gateway reports an open order. The keys of \<^verbatim>\<open>trackedMarkets\<close> are distinct
  (\<open>tick_distinct\<close>), and \<^verbatim>\<open>checkMarket\<close> keeps the rule (\<open>checkMarket_guard\<close>). The
  tick of \<^verbatim>\<open>bot-15min.ts\<close> does not: it checks the current window's market and orders on
  the next window's. From the freshly started bot, a first tick early in the window of A
  orders on B and tracks A. A second tick two seconds before A closes resolves A, finds A
  untracked and without open order, and orders on B again although the gateway reports
  the open order on B at both checks. Likewise a bot that holds a position keyed B orders
  on B when B is the next window's market.
\<close>

theorem order_for_market_with_open_order:
  "sent (tick betting ready) =
     [QuoteLookup marketB,
      PostOrder (Some ''B'')
        \<lparr>tokenID = ''B-down'', price = 4/5, size = 25/2, tickSize = 1/100, negRisk = False\<rparr>]
   \<and> hasOpenOrderForMarket (tick betting ready) (openOrders1 closing) ''B''
   \<and> hasOpenOrderForMarket (tick betting ready) (openOrders2 closing) ''B''
   \<and> sent (tick closing (tick betting ready)) =
       sent (tick betting ready) @
       [QuoteLookup marketA, QuoteLookup marketB,
        PostOrder (Some ''B'')
          \<lparr>tokenID = ''B-down'', price = 4/5, size = 25, tickSize = 1/100, negRisk = False\<rparr>]
   \<and> has (trackedMarkets holdingB) ''B''
   \<and> sent (tick betting holdingB) =
       [QuoteLookup marketB,
        PostOrder (Some ''B'')
          \<lparr>tokenID = ''B-down'', price = 4/5, size = 25/2, tickSize = 1/100, negRisk = False\<rparr>]"
  by (simp add: run_defs)

section \<open>The stake update\<close>

lemma applyResult_losses:
  "currentBetAmount ((applyResult False ^^ N) s) = currentBetAmount s * 2 ^ N
   \<and> initialAmount ((applyResult False ^^ N) s) = initialAmount s
   \<and> tradingSide ((applyResult False ^^ N) s) = tradingSide s"
  by (induction N) (simp_all add: applyResult_def)

text \<open>
  C2. The stake update of \<^verbatim>\<open>bot-15min.ts\<close>: a win sets the current bet to the initial
  amount, sets the flag that waits for a fresh uniform candle run and leaves the trading
  side alone; a loss doubles the current bet and leaves the side alone, so \<open>N\<close> losses
  in a row after a win, or after the start, leave the bet at the initial amount times
  \<open>2 ^ N\<close>, exactly.
\<close>

theorem stake_update:
  "currentBetAmount (applyResult True s) = initialAmount s
   \<and> waitingFor5Consecutive (applyResult True s)
   \<and> tradingSide (applyResult True s) = tradingSide s
   \<and> currentBetAmount (applyResult False s) = 2 * currentBetAmount s
   \<and> tradingSide (applyResult False s) = tradingSide s
   \<and> currentBetAmount ((applyResult False ^^ N) (applyResult True s)) = initialAmount s * 2 ^ N
   \<and> currentBetAmount ((applyResult False ^^ N) (constructor a n)) = a * 2 ^ N"
  by (simp add: applyResult_losses) (simp add: applyResult_def constructor_def)

text \<open>
  The scenario of the specification, 10, 20, 40: two losses after a win leave a bet of 40
  on an initial amount of 10. In a tick two seconds before the close of A, a bet on UP
  quoted at 0.25 doubles the bet and keeps the side; one quoted at 1 resets a bet of 40
  to 10 and sets the waiting flag.
\<close>

theorem stake_update_scenario:
  "currentBetAmount ((applyResult False ^^ 2) (applyResult True (constructor 10 2))) = 40
   \<and> currentBetAmount (tick (closing\<lparr>candles := None\<rparr>) holdingA) = 20
   \<and> tradingSide (tick (closing\<lparr>candles := None\<rparr>) holdingA) = UP
   \<and> currentBetAmount (tick winning (holdingA\<lparr>currentBetAmount := 40\<rparr>)) = 10
   \<and> waitingFor5Consecutive (tick winning (holdingA\<lparr>currentBetAmount := 40\<rparr>))"
proof -
  have "initialAmount (constructor 10 2) = 10"
    by (simp add: constructor_def)
  with stake_update [of "constructor 10 2" 2 10 2]
  have "currentBetAmount ((applyResult False ^^ 2) (applyResult True (constructor 10 2))) = 40"
    by simp
  moreover have "currentBetAmount (tick (closing\<lparr>candles := None\<rparr>) holdingA) = 20
     \<and> tradingSide (tick (closing\<lparr>candles := None\<rparr>) holdingA) = UP
     \<and> currentBetAmount (tick winning (holdingA\<lparr>currentBetAmount := 40\<rparr>)) = 10
     \<and> waitingFor5Consecutive (tick winning (holdingA\<lparr>currentBetAmount := 40\<rparr>))"
    by (simp add: run_defs)
  ultimately show ?thesis
    by simp
qed

text \<open>
  C3. The stake update of the variant with the circuit breaker: a loss whose previous bet
  is within 0.01 of sixteen times the initial amount resets the bet to the initial amount
  and flips the trading side; every other loss doubles the bet and keeps the side.
\<close>

theorem circuit_breaker:
  "isFifthConsecutiveLoss s = (\<bar>currentBetAmount s - 16 * initialAmount s\<bar> < 0.01)
   \<and> (isFifthConsecutiveLoss s \<longrightarrow>
        currentBetAmount (applyResult_cb False s) = initialAmount s
        \<and> tradingSide (applyResult_cb False s) = (case tradingSide s of UP \<Rightarrow> DOWN | DOWN \<Rightarrow> UP))
   \<and> (\<not> isFifthConsecutiveLoss s \<longrightarrow>
        currentBetAmount (applyResult_cb False s) = 2 * currentBetAmount s
        \<and> tradingSide (applyResult_cb False s) = tradingSide s)"
  by (cases "tradingSide s")
     (simp_all add: applyResult_cb_def isFifthConsecutiveLoss_def flip_def)

text \<open>
  The scenario of the specification: with an initial amount of 5 and a bet of 80 the next
  loss resets the bet to 5 and turns UP into DOWN; at a bet of 40 it doubles to 80. The
  loop of the variant does the same with a lost position on A, half a second before the
  close.
\<close>

theorem circuit_breaker_witness:
  "currentBetAmount (applyResult_cb False ((constructor 5 5)\<lparr>currentBetAmount := 80\<rparr>)) = 5
   \<and> tradingSide (applyResult_cb False ((constructor 5 5)\<lparr>currentBetAmount := 80\<rparr>)) = DOWN
   \<and> currentBetAmount (applyResult_cb False ((constructor 5 5)\<lparr>currentBetAmount := 40\<rparr>)) = 80
   \<and> tradingSide (applyResult_cb False ((constructor 5 5)\<lparr>currentBetAmount := 40\<rparr>)) = UP
   \<and> currentBetAmount
         (checkMarketResults_cb (closing\<lparr>nowA := (\<lambda>_. 899500)\<rparr>)
            ((initialize (constructor 5 5))\<lparr>currentBetAmount := 80, trackedMarkets := [entryA]\<rparr>)) = 5
   \<and> tradingSide
         (checkMarketResults_cb (closing\<lparr>nowA := (\<lambda>_. 899500)\<rparr>)
            ((initialize (constructor 5 5))\<lparr>currentBetAmount := 80, trackedMarkets := [entryA]\<rparr>)) = DOWN"
proof -
  have update:
    "currentBetAmount (applyResult_cb False ((constructor 5 5)\<lparr>currentBetAmount := 80\<rparr>)) = 5
     \<and> tradingSide (applyResult_cb False ((constructor 5 5)\<lparr>currentBetAmount := 80\<rparr>)) = DOWN
     \<and> currentBetAmount (applyResult_cb False ((constructor 5 5)\<lparr>currentBetAmount := 40\<rparr>)) = 80
     \<and> tradingSide (applyResult_cb False ((constructor 5 5)\<lparr>currentBetAmount := 40\<rparr>)) = UP"
    using circuit_breaker [of "(constructor 5 5)\<lparr>currentBetAmount := 80\<rparr>"]
          circuit_breaker [of "(constructor 5 5)\<lparr>currentBetAmount := 40\<rparr>"]
    by (simp add: constructor_def)
  have loop:
    "currentBetAmount
       (checkMarketResults_cb (closing\<lparr>nowA := (\<lambda>_. 899500)\<rparr>)
          ((initialize (constructor 5 5))\<lparr>currentBetAmount := 80, trackedMarkets := [entryA]\<rparr>)) = 5
     \<and> tradingSide
       (checkMarketResults_cb (closing\<lparr>nowA := (\<lambda>_. 899500)\<rparr>)
          ((initialize (constructor 5 5))\<lparr>currentBetAmount := 80, trackedMarkets := [entryA]\<rparr>)) = DOWN"
    by (simp add: example_defs idiom_defs gateway_defs checkMarketResults_cb_def
        resolveTracked_cb_def settle_def weWon_def applyResult_cb_def
        isFifthConsecutiveLoss_def flip_def Let_def)
  from update loop show ?thesis
    by simp
qed

text \<open>
  Counted from a reset, with an initial amount of at least an eighth of a cent, the
  first four losses double and the fifth is the one that resets and flips.
\<close>

lemma five_losses:
  assumes "initialAmount s \<ge> 1/800" and "currentBetAmount s = initialAmount s"
  shows "currentBetAmount ((applyResult_cb False ^^ 4) s) = 16 * initialAmount s
    \<and> tradingSide ((applyResult_cb False ^^ 4) s) = tradingSide s
    \<and> currentBetAmount ((applyResult_cb False ^^ 5) s) = initialAmount s
    \<and> tradingSide ((applyResult_cb False ^^ 5) s) = flip (tradingSide s)"
  using assms
  by (simp add: numeral_eq_Suc applyResult_cb_def isFifthConsecutiveLoss_def)

section \<open>Resolution of a tracked market\<close>

text \<open>
  One iteration of the resolution loop of \<^verbatim>\<open>bot-15min.ts\<close>, for a tracked market
  that is found among the current and next markets and whose close time parses to the
  instant \<open>t\<close>. While more than five seconds are left the iteration changes nothing.
  Once at most five seconds are left and quotes come back, the entry is removed and the
  stake update is applied with a win exactly when the quote of the side that was bet is
  at least 0.99, and with a loss otherwise.
\<close>

lemma resolution_rule:
  assumes "findTracked (present (findMarketsA w (fst e))) (snd e) = Some m"
    and "truthy (or_else (endDate (details m)) (end_date_iso (details m))) = Some ed"
    and "getTime w ed = Some t"
  shows "(of_int (t - nowA w (fst e)) / 1000 > (5::rat) \<longrightarrow> resolveTracked w e s = s)
    \<and> (of_int (t - nowA w (fst e)) / 1000 \<le> (5::rat) \<longrightarrow>
         readPrices w (getPriceA w (fst e)) (client s) (details m) = Some p \<longrightarrow>
         resolveTracked w e s =
           applyResult ((case info_side (snd e) of UP \<Rightarrow> up p | DOWN \<Rightarrow> down p) \<ge> 0.99)
             (s\<lparr>trackedMarkets := AList.delete (fst e) (trackedMarkets s),
                sent := sent s @ [QuoteLookup (details m)]\<rparr>))"
  using assms
  by (cases "info_side (snd e)")
     (simp_all add: resolveTracked_def settle_def js_gt_def timeLeftSeconds_def
        getTicketPrices_def sending_def weWon_def Let_def)

text \<open>
  An iteration that changes the bot has found its market with a close time, and the
  comparison \<^verbatim>\<open>timeLeftSeconds > 5\<close> was false.
\<close>

lemma resolution_needs_due_time:
  assumes "resolveTracked w e s \<noteq> s"
  shows "\<exists>m ed. findTracked (present (findMarketsA w (fst e))) (snd e) = Some m
           \<and> truthy (or_else (endDate (details m)) (end_date_iso (details m))) = Some ed
           \<and> \<not> js_gt (timeLeftSeconds (getTime w ed) (nowA w (fst e))) 5"
  using assms
  by (auto simp add: resolveTracked_def settle_def Let_def split: option.splits if_splits)

text \<open>
  Fifteen minutes before the close nothing happens; two seconds before it a bet on UP
  quoted at 0.25 is a loss (the bet goes from 10 to 20) and one quoted at 1 is a win.
\<close>

lemma resolution_rule_witness:
  "resolveTracked betting entryA holdingA = holdingA
   \<and> trackedMarkets (resolveTracked closing entryA holdingA) = []
   \<and> currentBetAmount (resolveTracked closing entryA holdingA) = 20
   \<and> \<not> waitingFor5Consecutive (resolveTracked closing entryA holdingA)
   \<and> trackedMarkets (resolveTracked winning entryA holdingA) = []
   \<and> currentBetAmount (resolveTracked winning entryA holdingA) = 10
   \<and> waitingFor5Consecutive (resolveTracked winning entryA holdingA)"
  using resolution_rule [of betting entryA marketA "''1970-01-01T00:15:00Z''" 900000 holdingA]
        resolution_rule [of closing entryA marketA "''1970-01-01T00:15:00Z''" 900000
                            holdingA
                            "\<lparr>up = 0.25, down = 0.80, upTokenId = ''A-up'',
                              downTokenId = ''A-down''\<rparr>"]
        resolution_rule [of winning entryA marketA "''1970-01-01T00:15:00Z''" 900000
                            holdingA
                            "\<lparr>up = 1, down = 0, upTokenId = ''A-up'',
                              downTokenId = ''A-down''\<rparr>"]
  by (simp add: example_defs idiom_defs readPrices_def applyResult_def)

text \<open>
  The loop and the tick: a bot with a client that tracks one market does, in a tick
  without candles, what the iteration for that market does.
\<close>

lemma stepA_single:
  assumes "trackedMarkets s = [e]"
  shows "stepA w s = resolveTracked w e s"
  using assms by (simp add: stepA_def)

lemma tick_single:
  assumes "trackedMarkets s = [e]" and "client s" and "candles w = None"
  shows "tick w s = resolveTracked w e s"
  using assms by (simp add: tick_def checkMarketResults_def stepC_def stepA_single)

text \<open>
  A close time that is present but does not parse is not deferred: the time left is
  \<^verbatim>\<open>NaN\<close>, the comparison \<^verbatim>\<open>timeLeftSeconds > 5\<close> is false, and the iteration goes
  on to remove the entry and to apply the result of whatever quotes come back.
\<close>

lemma unparseable_close_time:
  assumes "findTracked (present (findMarketsA w (fst e))) (snd e) = Some m"
    and "truthy (or_else (endDate (details m)) (end_date_iso (details m))) = Some ed"
    and "getTime w ed = None"
  shows "trackedMarkets (resolveTracked w e s) = AList.delete (fst e) (trackedMarkets s)"
    and "readPrices w (getPriceA w (fst e)) (client s) (details m) = Some p \<Longrightarrow>
         resolveTracked w e s =
           applyResult (weWon (snd e) p)
             (s\<lparr>trackedMarkets := AList.delete (fst e) (trackedMarkets s),
                sent := sent s @ [QuoteLookup (details m)]\<rparr>)"
  using assms
  by (simp_all add: resolveTracked_def settle_def js_gt_def timeLeftSeconds_def
      getTicketPrices_def sending_def Let_def applyResult_def
      split: answer.splits option.splits)

text \<open>
  C4. The resolution step is to leave a tracked position alone until at most five seconds
  remain to the close of its market. It does so when the close time parses: fifteen
  minutes before the close of A the tick changes nothing. It does not when the
  \<^verbatim>\<open>endDate\<close> of the answer is a string that is no date: the time left is \<^verbatim>\<open>NaN\<close>,
  \<^verbatim>\<open>timeLeftSeconds > 5\<close> is false, and the same tick, 900 seconds before the close,
  removes the position on A and applies a loss, the bet going from 10 to 20.
\<close>

theorem unparseable_close_time_resolved:
  "tick early holdingA = holdingA
   \<and> findMarketsA garbled ''A'' = (Some marketA_garbled, Some marketB)
   \<and> or_else (endDate marketA_garbled) (end_date_iso marketA_garbled) = Some ''soon''
   \<and> timeLeftSeconds (getTime garbled ''soon'') (nowA garbled ''A'') = None
   \<and> \<not> js_gt (timeLeftSeconds (getTime garbled ''soon'') (nowA garbled ''A'')) 5
   \<and> timeLeftSeconds (getTime garbled ''1970-01-01T00:15:00Z'') (nowA garbled ''A'') = Some 900
   \<and> trackedMarkets holdingA = [entryA]
   \<and> currentBetAmount holdingA = 10
   \<and> trackedMarkets (tick garbled holdingA) = []
   \<and> currentBetAmount (tick garbled holdingA) = 20
   \<and> sent (tick garbled holdingA) = [QuoteLookup marketA_garbled]"
  by (simp add: run_defs)

text \<open>
  As C5 is written, a failing quote fetch keeps the tracked position for the next tick.
  In the code the entry is deleted before the quotes are fetched: two seconds before the
  close of A, with the price requests throwing and nothing to fall back on, the tick
  drops the position on A.
\<close>

theorem quote_failure_counterexample:
  "has (trackedMarkets holdingA) ''A''
   \<and> timeLeftSeconds (getTime quoteless ''1970-01-01T00:15:00Z'') (nowA quoteless ''A'') = Some 2
   \<and> readPrices quoteless (getPriceA quoteless ''A'') (client holdingA) marketA = None
   \<and> \<not> has (trackedMarkets (tick quoteless holdingA)) ''A''"
  by (simp add: run_defs)

text \<open>
  C5, as the code has it, in both variants, for a tracked market that is found. When the
  market carries no close time, the iteration changes nothing: the position stays for
  the next tick. When the close time parses, the grace threshold is reached (five
  seconds, one second in the older variant) and \<^verbatim>\<open>getTicketPrices\<close> returns
  \<^verbatim>\<open>null\<close>, the position has been removed and nothing else of the bot has changed:
  the bet amount, the trading side and the waiting flag are as before.
\<close>

theorem deferral:
  assumes "findTracked (present (findMarketsA w (fst e))) (snd e) = Some m"
    and "findTracked (findMarketsL w (fst e)) (snd e) = Some m"
    and "client s"
  shows
    "(truthy (or_else (endDate (details m)) (end_date_iso (details m))) = None \<longrightarrow>
        resolveTracked w e s = s \<and> resolveTracked_cb w e s = s)
     \<and> (truthy (or_else (endDate (details m)) (end_date_iso (details m))) = Some ed \<longrightarrow>
        getTime w ed = Some t \<longrightarrow>
        readPrices w (getPriceA w (fst e)) (client s) (details m) = None \<longrightarrow>
          (of_int (t - nowA w (fst e)) / 1000 \<le> (5::rat) \<longrightarrow>
             resolveTracked w e s =
               s\<lparr>trackedMarkets := AList.delete (fst e) (trackedMarkets s),
                 sent := sent s @ [QuoteLookup (details m)]\<rparr>
             \<and> \<not> has (trackedMarkets (resolveTracked w e s)) (fst e))
          \<and> (of_int (t - nowA w (fst e)) / 1000 \<le> (1::rat) \<longrightarrow>
             resolveTracked_cb w e s =
               s\<lparr>trackedMarkets := AList.delete (fst e) (trackedMarkets s),
                 sent := sent s @ [QuoteLookup (details m)]\<rparr>
             \<and> \<not> has (trackedMarkets (resolveTracked_cb w e s)) (fst e)))"
  using assms
  by (auto simp add: resolveTracked_def resolveTracked_cb_def settle_def js_gt_def
      timeLeftSeconds_def getTicketPrices_def sending_def Let_def has_delete)

text \<open>
  A market without a close time, and a market half a second before its close whose
  price requests throw.
\<close>

theorem deferral_witness:
  "resolveTracked (betting\<lparr>findMarketsA := (\<lambda>_. (Some marketA_undated, None)),
                           findMarketsL := (\<lambda>_. [marketA_undated])\<rparr>) entryA holdingA = holdingA
   \<and> resolveTracked_cb (betting\<lparr>findMarketsA := (\<lambda>_. (Some marketA_undated, None)),
                           findMarketsL := (\<lambda>_. [marketA_undated])\<rparr>) entryA holdingA = holdingA
   \<and> resolveTracked (quoteless\<lparr>nowA := (\<lambda>_. 899500)\<rparr>) entryA holdingA =
        holdingA\<lparr>trackedMarkets := [], sent := [QuoteLookup marketA]\<rparr>
   \<and> resolveTracked_cb (quoteless\<lparr>nowA := (\<lambda>_. 899500)\<rparr>) entryA holdingA =
        holdingA\<lparr>trackedMarkets := [], sent := [QuoteLookup marketA]\<rparr>"
  using deferral [of "betting\<lparr>findMarketsA := (\<lambda>_. (Some marketA_undated, None)),
                            findMarketsL := (\<lambda>_. [marketA_undated])\<rparr>" entryA
                     marketA_undated holdingA]
        deferral [of "quoteless\<lparr>nowA := (\<lambda>_. 899500)\<rparr>" entryA marketA holdingA
                     "''1970-01-01T00:15:00Z''" 900000]
  by (simp add: example_defs idiom_defs readPrices_def fallbackPrices_def)

section \<open>The betting step\<close>

text \<open>
  C6. The betting step is to pick one target market, the current window's or else the next
  window's, and to look up quotes, record the position and place the order on it. With A
  current and B next, the tick records the position under A, looks up the quotes of B and
  orders B's token under B's \<^verbatim>\<open>conditionId\<close>; with no current market and B next it
  does nothing at all (\<open>bet_order\<close> is the general statement).
\<close>

theorem bet_uses_two_markets:
  "findMarketsC betting = (Some marketA, Some marketB)
   \<and> trackedMarkets (tick betting ready) = [(''A'', \<lparr>info_conditionId = ''A'', info_side = DOWN\<rparr>)]
   \<and> sent (tick betting ready) =
       [QuoteLookup marketB,
        PostOrder (Some ''B'')
          \<lparr>tokenID = ''B-down'', price = 4/5, size = 25/2, tickSize = 1/100, negRisk = False\<rparr>]
   \<and> tick (betting\<lparr>findMarketsC := (None, Some marketB)\<rparr>) ready = ready"
  by (simp add: run_defs)

text \<open>
  C7. A bar is UP exactly when it closes above its open and DOWN otherwise, so a bar that
  closes at its open is DOWN. A run of bars is uniform exactly when every bar has the
  colour of the first, which is then the colour of the run; the bet goes to the other
  colour.
\<close>

theorem candle_gate:
  "(candleColor c = UP \<longleftrightarrow> close_price c > open_price c)
   \<and> (candleColor c = DOWN \<longleftrightarrow> \<not> close_price c > open_price c)
   \<and> (close_price c = open_price c \<longrightarrow> candleColor c = DOWN)
   \<and> (allSameColor (candleColors (b # bs)) \<longleftrightarrow>
        (\<forall>x \<in> set (b # bs). candleColor x = candleColor b))
   \<and> (allSameColor (candleColors (b # bs)) \<longrightarrow>
        first (candleColors (b # bs)) = Some (candleColor b)
        \<and> oppositeColor (candleColors (b # bs)) =
            (case candleColor b of UP \<Rightarrow> DOWN | DOWN \<Rightarrow> UP))"
  by (cases "candleColor b")
     (auto simp add: candleColor_def candleColors_def allSameColor_def first_def
        oppositeColor_def list_all_iff)

text \<open>A flat bar is DOWN; two rising bars are a uniform UP run; a flat bar in front breaks it.\<close>

theorem candle_gate_witness:
  "candleColor \<lparr>open_price = 100, close_price = 100\<rparr> = DOWN
   \<and> allSameColor (candleColors greenRun)
   \<and> first (candleColors greenRun) = Some UP
   \<and> oppositeColor (candleColors greenRun) = DOWN
   \<and> \<not> allSameColor (candleColors (\<lparr>open_price = 100, close_price = 100\<rparr> # greenRun))"
  using candle_gate [of "\<lparr>open_price = 100, close_price = 100\<rparr>"
                        "\<lparr>open_price = 100, close_price = 101\<rparr>"
                        "[\<lparr>open_price = 101, close_price = 103\<rparr>]"]
        candle_gate [of "\<lparr>open_price = 100, close_price = 100\<rparr>"
                        "\<lparr>open_price = 100, close_price = 100\<rparr>" greenRun]
  by (simp add: greenRun_def candleColor_def)

text \<open>
  The gate in the tick: without candles, with a count other than the configured run
  length or with a mixed run, the betting step changes nothing; a uniform run of the
  configured length clears the flag that waits for it.
\<close>

lemma gate_closed:
  assumes "candles w = None
     \<or> (\<exists>cs. candles w = Some cs
           \<and> (int (length cs) \<noteq> consecutiveCandlesCount s \<or> \<not> allSameColor (candleColors cs)))"
  shows "stepC w s = s"
  using assms by (auto simp add: stepC_def)

lemma gate_open:
  assumes "candles w = Some cs" and "int (length cs) = consecutiveCandlesCount s"
    and "allSameColor (candleColors cs)"
  shows "\<not> waitingFor5Consecutive (stepC w s)"
proof -
  have B: "waitingFor5Consecutive (bet w opp x) = waitingFor5Consecutive x" for opp x
    by (rule bet_frame) simp_all
  from assms show ?thesis
    by (simp add: stepC_def B)
qed

section \<open>The order lock\<close>

text \<open>
  C8. A tick that starts with the lock free ends with the lock free, whatever the
  collaborators answer, exceptions of the gateway included; so does \<^verbatim>\<open>checkMarket\<close>,
  and so does every sequence of ticks.
\<close>

theorem lock_released:
  assumes "\<not> orderLock s"
  shows "\<not> orderLock (tick w s) \<and> \<not> orderLock (checkMarket w m s)
         \<and> \<not> orderLock (fold tick ws s)"
  using assms by (simp add: tick_orderLock checkMarket_orderLock ticks_orderLock)

text \<open>
  A tick in which \<^verbatim>\<open>createAndPostOrder\<close> throws: the order was sent, the position is
  rolled back and the lock is free.
\<close>

theorem lock_released_witness:
  "\<not> orderLock ready
   \<and> sent (tick (betting\<lparr>postOrder := (\<lambda>_. Throws)\<rparr>) ready) =
       [QuoteLookup marketB,
        PostOrder (Some ''B'')
          \<lparr>tokenID = ''B-down'', price = 4/5, size = 25/2, tickSize = 1/100, negRisk = False\<rparr>]
   \<and> trackedMarkets (tick (betting\<lparr>postOrder := (\<lambda>_. Throws)\<rparr>) ready) = []
   \<and> \<not> orderLock (tick (betting\<lparr>postOrder := (\<lambda>_. Throws)\<rparr>) ready)
   \<and> \<not> orderLock (checkMarket (betting\<lparr>postOrder := (\<lambda>_. Throws)\<rparr>) marketA ready)
   \<and> \<not> orderLock (fold tick [betting, closing] ready)"
proof -
  have free: "\<not> orderLock ready"
    by (simp add: example_defs)
  have run: "sent (tick (betting\<lparr>postOrder := (\<lambda>_. Throws)\<rparr>) ready) =
       [QuoteLookup marketB,
        PostOrder (Some ''B'')
          \<lparr>tokenID = ''B-down'', price = 4/5, size = 25/2, tickSize = 1/100, negRisk = False\<rparr>]
     \<and> trackedMarkets (tick (betting\<lparr>postOrder := (\<lambda>_. Throws)\<rparr>) ready) = []"
    by (simp add: run_defs)
  from free run
    lock_released [OF free, of "betting\<lparr>postOrder := (\<lambda>_. Throws)\<rparr>" marketA
                     "[betting, closing]"]
  show ?thesis
    by simp
qed

section \<open>The status snapshot\<close>

text \<open>
  The counters and the history of the wrapper are fields that no tick writes: whatever
  happens, the snapshot of an instance shows an empty history, zero wins and losses and
  no last result.
\<close>

lemma status_tracking_inert:
  fixes b :: botInstance
  shows
    "history (tick w b) = history b
     \<and> winCount (tick w b) = winCount b
     \<and> lossCount (tick w b) = lossCount b
     \<and> lastResult (tick w b) = lastResult b
     \<and> lastMarketId (tick w b) = lastMarketId b
     \<and> st_history (getStatus (fold tick ws (initialize (constructor_instance a n)))) = []
     \<and> st_winCount (getStatus (fold tick ws (initialize (constructor_instance a n)))) = 0
     \<and> st_lossCount (getStatus (fold tick ws (initialize (constructor_instance a n)))) = 0
     \<and> st_lastResult (getStatus (fold tick ws (initialize (constructor_instance a n)))) = None
     \<and> st_lastMarketId (getStatus (fold tick ws (initialize (constructor_instance a n)))) = None
     \<and> st_currentBetAmount (getStatus b) = currentBetAmount b
     \<and> st_trackedMarketsCount (getStatus b) = length (trackedMarkets b)
     \<and> st_tradingSide (getStatus b) = tradingSide b"
proof -
  let ?b0 = "initialize (constructor_instance a n)"
  have 1: "history (tick w x) = history x" "winCount (tick w x) = winCount x"
    "lossCount (tick w x) = lossCount x" "lastResult (tick w x) = lastResult x"
    "lastMarketId (tick w x) = lastMarketId x" for x :: botInstance
    by (rule tick_frame; simp)+
  have 2: "history (fold tick ws ?b0) = history ?b0" "winCount (fold tick ws ?b0) = winCount ?b0"
    "lossCount (fold tick ws ?b0) = lossCount ?b0" "lastResult (fold tick ws ?b0) = lastResult ?b0"
    "lastMarketId (fold tick ws ?b0) = lastMarketId ?b0"
    by (rule ticks_frame; simp)+
  show ?thesis
    by (simp add: 1 2 getStatus_def) (simp add: initialize_def constructor_instance_def)
qed

text \<open>
  C9. A resolution is to append a history entry and to show in the counters and the last
  result of the snapshot. Two seconds before A closes with UP at one dollar, the
  instance that bet UP on A wins: the position is gone and the waiting flag is set. The
  snapshot still shows no history, no win and no last result.
\<close>

theorem status_not_updated:
  "trackedMarkets instanceHoldingA = [entryA]
   \<and> trackedMarkets (tick winning instanceHoldingA) = []
   \<and> waitingFor5Consecutive (tick winning instanceHoldingA)
   \<and> st_history (getStatus (tick winning instanceHoldingA)) = []
   \<and> st_winCount (getStatus (tick winning instanceHoldingA)) = 0
   \<and> st_lastResult (getStatus (tick winning instanceHoldingA)) = None
   \<and> st_lastMarketId (getStatus (tick winning instanceHoldingA)) = None"
  by (simp add: run_defs getStatus_def)

section \<open>The open-order guard\<close>

lemma getTicketPrices_openOrders:
  "getTicketPrices (w\<lparr>openOrders1 := x, openOrders2 := y\<rparr>) gp s m = getTicketPrices w gp s m"
  by (simp add: getTicketPrices_def readPrices_def fallbackPrices_def
      split: option.splits answer.splits prod.splits)

lemma resolveTracked_openOrders:
  "resolveTracked (w\<lparr>openOrders1 := x, openOrders2 := y\<rparr>) = resolveTracked w"
  by (rule ext, rule ext)
     (simp add: resolveTracked_def settle_def Let_def getTicketPrices_openOrders
        split: option.splits answer.splits prod.splits)

lemma stepA_openOrders: "stepA (w\<lparr>openOrders1 := x, openOrders2 := y\<rparr>) s = stepA w s"
  by (simp add: stepA_def resolveTracked_openOrders)

lemma placeOrder_openOrders:
  "placeOrder (w\<lparr>openOrders1 := x, openOrders2 := y\<rparr>) c tok p sd s = placeOrder w c tok p sd s"
  by (simp add: placeOrder_def Let_def split: answer.splits)

lemma fails_open:
  "\<not> client s \<or> ans = Throws \<or> ans = Returns None \<Longrightarrow> \<not> hasOpenOrderForMarket s ans cid"
  by (auto simp add: hasOpenOrderForMarket_def)

lemma no_orders: "\<not> hasOpenOrderForMarket s (Returns (Some [])) cid"
  by (simp add: hasOpenOrderForMarket_def)

lemma lockedC_openOrders:
  assumes "openOrders2 w = Throws \<or> openOrders2 w = Returns None"
  shows "lockedC w cid ocid tok p sd s =
         lockedC (w\<lparr>openOrders1 := Returns (Some []), openOrders2 := Returns (Some [])\<rparr>)
           cid ocid tok p sd s"
  using assms
  by (simp add: lockedC_def fails_open no_orders placeOrder_openOrders)

lemma lockedM_openOrders:
  assumes "openOrders2 w = Throws \<or> openOrders2 w = Returns None"
  shows "lockedM w cid tok p sd amt s =
         lockedM (w\<lparr>openOrders1 := Returns (Some []), openOrders2 := Returns (Some [])\<rparr>)
           cid tok p sd amt s"
  using assms
  by (simp add: lockedM_def fails_open no_orders placeOrder_openOrders)

lemma bet_openOrders:
  assumes "openOrders1 w = Throws \<or> openOrders1 w = Returns None"
    and "openOrders2 w = Throws \<or> openOrders2 w = Returns None"
  shows "bet w opp s =
         bet (w\<lparr>openOrders1 := Returns (Some []), openOrders2 := Returns (Some [])\<rparr>) opp s"
  using assms(1)
  by (simp add: bet_def fails_open no_orders lockedC_openOrders [OF assms(2)]
      getTicketPrices_openOrders split: option.splits prod.splits answer.splits)

lemma checkMarket_openOrders:
  assumes "openOrders1 w = Throws \<or> openOrders1 w = Returns None"
    and "openOrders2 w = Throws \<or> openOrders2 w = Returns None"
  shows "checkMarket w m s =
         checkMarket (w\<lparr>openOrders1 := Returns (Some []), openOrders2 := Returns (Some [])\<rparr>) m s"
  using assms(1)
  by (simp add: checkMarket_def fails_open no_orders lockedM_openOrders [OF assms(2)]
      getTicketPrices_openOrders split: option.splits prod.splits answer.splits)

lemma tick_openOrders:
  assumes "openOrders1 w = Throws \<or> openOrders1 w = Returns None"
    and "openOrders2 w = Throws \<or> openOrders2 w = Returns None"
  shows "tick w s =
         tick (w\<lparr>openOrders1 := Returns (Some []), openOrders2 := Returns (Some [])\<rparr>) s"
  by (simp add: tick_def checkMarketResults_def stepC_def stepA_openOrders
      bet_openOrders [OF assms] split: option.splits)

text \<open>
  C10. \<^verbatim>\<open>hasOpenOrderForMarket\<close> answers false without a client, when the query throws
  and when the answer is not an array. Nothing is raised and no bet is skipped: with both
  queries of a tick failing, \<^verbatim>\<open>checkMarket\<close> and the tick do exactly what they do when
  the gateway reports no open order. The check of the tracked positions still holds: for
  a tracked market \<^verbatim>\<open>checkMarket\<close> sends nothing.
\<close>

theorem open_order_guard_fails_open:
  "(\<not> client s \<or> ans = Throws \<or> ans = Returns None \<longrightarrow>
      hasOpenOrderForMarket s ans cid = False)
   \<and> ((openOrders1 w = Throws \<or> openOrders1 w = Returns None)
       \<and> (openOrders2 w = Throws \<or> openOrders2 w = Returns None) \<longrightarrow>
      checkMarket w m s =
        checkMarket (w\<lparr>openOrders1 := Returns (Some []), openOrders2 := Returns (Some [])\<rparr>) m s
      \<and> tick w s =
        tick (w\<lparr>openOrders1 := Returns (Some []), openOrders2 := Returns (Some [])\<rparr>) s)
   \<and> (truthy (conditionId (details m)) = Some cid \<and> has (trackedMarkets s) cid \<longrightarrow>
      sent (checkMarket w m s) = sent s \<and> trackedMarkets (checkMarket w m s) = trackedMarkets s)"
  using fails_open [of s ans cid] checkMarket_openOrders [of w m s] tick_openOrders [of w s]
  by (auto simp add: checkMarket_def)

text \<open>
  With the first query throwing and the second returning no array, the order on A goes
  out; it does not when A is tracked.
\<close>

theorem open_order_guard_witness:
  "\<not> hasOpenOrderForMarket ready Throws ''A''
   \<and> \<not> hasOpenOrderForMarket ready (Returns None) ''A''
   \<and> \<not> hasOpenOrderForMarket (constructor 10 2) (Returns (Some [\<lparr>order_market = ''A''\<rparr>])) ''A''
   \<and> hasOpenOrderForMarket ready (Returns (Some [\<lparr>order_market = ''A''\<rparr>])) ''A''
   \<and> sent (checkMarket (betting\<lparr>openOrders1 := Throws, openOrders2 := Returns None\<rparr>)
             marketA ready) =
       [QuoteLookup marketA,
        PostOrder (Some ''A'')
          \<lparr>tokenID = ''A-up'', price = 1/4, size = 40, tickSize = 1/100, negRisk = False\<rparr>]
   \<and> sent (checkMarket (betting\<lparr>openOrders1 := Throws, openOrders2 := Returns None\<rparr>)
             marketA holdingA) = []"
proof -
  let ?w = "betting\<lparr>openOrders1 := Throws, openOrders2 := Returns None\<rparr>"
  let ?w' = "?w\<lparr>openOrders1 := Returns (Some []), openOrders2 := Returns (Some [])\<rparr>"
  have ev: "sent (checkMarket ?w' marketA ready) =
       [QuoteLookup marketA,
        PostOrder (Some ''A'')
          \<lparr>tokenID = ''A-up'', price = 1/4, size = 40, tickSize = 1/100, negRisk = False\<rparr>]"
    by (simp add: example_defs idiom_defs gateway_defs checkMarket_defs Let_def)
  have pos: "hasOpenOrderForMarket ready (Returns (Some [\<lparr>order_market = ''A''\<rparr>])) ''A''"
    by (simp add: example_defs hasOpenOrderForMarket_def)
  have bad: "(openOrders1 ?w = Throws \<or> openOrders1 ?w = Returns None)
             \<and> (openOrders2 ?w = Throws \<or> openOrders2 ?w = Returns None)"
    by simp
  have off: "\<not> client (constructor 10 2)"
    by (simp add: constructor_def)
  have held: "truthy (conditionId (details marketA)) = Some ''A''
              \<and> has (trackedMarkets holdingA) ''A''" "sent holdingA = []"
    by (simp_all add: example_defs idiom_defs)
  have 1: "\<not> hasOpenOrderForMarket ready Throws ''A''"
    and 2: "checkMarket ?w marketA ready = checkMarket ?w' marketA ready"
    using open_order_guard_fails_open [of ready Throws "''A''" ?w marketA] bad
    by simp_all
  have 3: "\<not> hasOpenOrderForMarket ready (Returns None) ''A''"
    using open_order_guard_fails_open [of ready "Returns None" "''A''" ?w marketA]
    by simp
  have 4: "\<not> hasOpenOrderForMarket (constructor 10 2)
               (Returns (Some [\<lparr>order_market = ''A''\<rparr>])) ''A''"
    using open_order_guard_fails_open [of "constructor 10 2"
            "Returns (Some [\<lparr>order_market = ''A''\<rparr>])" "''A''" ?w marketA] off
    by simp
  have 5: "sent (checkMarket ?w marketA holdingA) = sent holdingA"
    using open_order_guard_fails_open [of holdingA Throws "''A''" ?w marketA] held(1)
    by blast
  from 1 2 3 4 5 ev pos held(2) show ?thesis
    by simp
qed

end
